theory Spec2Isabelle
  imports Complex_Main
begin

section \<open>Nigerian tax calculator: the calculation services\<close>

text \<open>
  The calculators are pure functions over JavaScript numbers. In the income tax,
  corporate tax and capital gains calculators a number is modelled as a
  \<^typ>\<open>real\<close>: arithmetic is exact, \<open>Infinity\<close> (the size of the open-ended bracket) is
  the value \<open>None\<close> of an option, and the rounding of doubles and the value \<open>NaN\<close> are
  outside the model. The VAT calculator is modelled on IEEE 754 doubles, every operation
  rounding its result, because its round-trip property is a bound on rounding errors.
  An optional field (\<open>x?: number\<close>) is an option. Template strings that interpolate a
  number are values of the datatype \<open>message\<close>, one constructor per template, holding the
  interpolated numbers; literal strings are \<open>Plain\<close>, with the sign "greater or equal"
  written \<open>>=\<close>.
\<close>

datatype message =
    Plain string
  | IncomeBelowThreshold real real
  | GainBelowThreshold real real
  | SmallCompanyCGTExempt real
  | SmallCompanyClassification real
  | RateOnAssessableProfits real
  | RateOfAssessableProfits real
  | TaxAtRate real
  | OnAmount real

subsection \<open>Configuration (taxConfig)\<close>

record TaxBracket =
  min_b :: real
  max_b :: "real option"
  rate :: real
  label :: string

definition PIT_BRACKETS :: "TaxBracket list" where
  "PIT_BRACKETS =
    [\<lparr>min_b = 0, max_b = Some 800000, rate = 0, label = ''Tax-Exempt''\<rparr>,
     \<lparr>min_b = 800001, max_b = Some 3000000, rate = 15, label = ''15% Bracket''\<rparr>,
     \<lparr>min_b = 3000001, max_b = Some 12000000, rate = 18, label = ''18% Bracket''\<rparr>,
     \<lparr>min_b = 12000001, max_b = Some 25000000, rate = 21, label = ''21% Bracket''\<rparr>,
     \<lparr>min_b = 25000001, max_b = Some 50000000, rate = 23, label = ''23% Bracket''\<rparr>,
     \<lparr>min_b = 50000001, max_b = None, rate = 25, label = ''25% Bracket (Maximum)''\<rparr>]"

definition PIT_EXEMPT_THRESHOLD :: real where
  "PIT_EXEMPT_THRESHOLD = 800000"

definition JOB_LOSS_COMPENSATION_EXEMPT_LIMIT :: real where
  "JOB_LOSS_COMPENSATION_EXEMPT_LIMIT = 50000000"

definition RENT_RELIEF_MAX :: real where
  "RENT_RELIEF_MAX = 500000"

definition SMALL_COMPANY_TURNOVER_LIMIT :: real where
  "SMALL_COMPANY_TURNOVER_LIMIT = 100000000"

definition CIT_RATE :: real where
  "CIT_RATE = 30"

definition SMALL_COMPANY_CIT_RATE :: real where
  "SMALL_COMPANY_CIT_RATE = 0"

definition DEVELOPMENT_LEVY_RATE :: real where
  "DEVELOPMENT_LEVY_RATE = 4"

definition MINIMUM_EFFECTIVE_TAX_RATE :: real where
  "MINIMUM_EFFECTIVE_TAX_RATE = 15"

definition COMPANY_CGT_RATE :: real where
  "COMPANY_CGT_RATE = 30"

definition SMALL_COMPANY_CGT_RATE :: real where
  "SMALL_COMPANY_CGT_RATE = 0"

definition VAT_RATE :: real where
  "VAT_RATE = 7.5"

subsection \<open>Personal income tax (pitCalculator)\<close>

record IncomeSource =
  type :: string
  amount :: real

record Deduction =
  type :: string
  amount :: real

record BracketBreakdown =
  bracket :: TaxBracket
  taxableInBracket :: real
  taxForBracket :: real

record PITResult =
  grossIncome :: real
  totalDeductions :: real
  taxableIncome :: real
  totalTax :: real
  netTakeHome :: real
  effectiveRate :: real
  isExempt :: bool
  exemptReason :: "message option"
  bracketBreakdown :: "BracketBreakdown list"
  monthlyTax :: real
  monthlyNetPay :: real

text \<open>\<open>incomeSources.reduce((total, source) => total + source.amount, 0)\<close>\<close>

definition calculateGrossIncome :: "IncomeSource list \<Rightarrow> real" where
  "calculateGrossIncome incomeSources =
     foldl (\<lambda>total source. total + IncomeSource.amount source) 0 incomeSources"

record AppliedDeduction =
  type :: string
  amount :: real
  capped :: bool

record DeductionsResult =
  total :: real
  applied :: "AppliedDeduction list"

text \<open>
  One pass of the loop of \<open>calculateDeductions\<close> over a deduction: the three limit
  checks run in the order of the source, each on the amount left by the one before.
\<close>

definition applyLimits :: "real \<Rightarrow> Deduction \<Rightarrow> AppliedDeduction" where
  "applyLimits grossIncome deduction =
    (let amount0 = Deduction.amount deduction;
         capped0 = False;
         (amount1, capped1) =
           (if Deduction.type deduction = ''rent_relief'' \<and> amount0 > RENT_RELIEF_MAX
            then (RENT_RELIEF_MAX, True) else (amount0, capped0));
         (amount2, capped2) =
           (if Deduction.type deduction = ''job_loss''
               \<and> amount1 > JOB_LOSS_COMPENSATION_EXEMPT_LIMIT
            then (JOB_LOSS_COMPENSATION_EXEMPT_LIMIT, True) else (amount1, capped1));
         (amount3, capped3) =
           (if Deduction.type deduction = ''pension''
            then (let maxPension = grossIncome * 0.08
                  in if amount2 > maxPension then (maxPension, True) else (amount2, capped2))
            else (amount2, capped2))
     in \<lparr>AppliedDeduction.type = Deduction.type deduction,
         AppliedDeduction.amount = amount3, capped = capped3\<rparr>)"
  for grossIncome

definition deductionStep ::
    "real \<Rightarrow> AppliedDeduction list \<times> real \<Rightarrow> Deduction \<Rightarrow> AppliedDeduction list \<times> real" where
  "deductionStep grossIncome st deduction =
    (let (applied, total) = st;
         a = applyLimits grossIncome deduction
     in (applied @ [a], total + AppliedDeduction.amount a))"
  for grossIncome

definition calculateDeductions :: "Deduction list \<Rightarrow> real \<Rightarrow> DeductionsResult" where
  "calculateDeductions deductions grossIncome =
    (let (applied, total) = foldl (deductionStep grossIncome) ([], 0) deductions;
         total' = (if total > grossIncome then grossIncome else total)
     in \<lparr>total = total', applied = applied\<rparr>)"
  for grossIncome

record ProgressiveTax =
  totalTax :: real
  breakdown :: "BracketBreakdown list"

text \<open>
  The body of the loop of \<open>calculateProgressiveTax\<close> over one bracket. The state is
  \<open>(breakdown, totalTax, remainingIncome)\<close>. The size of a bracket with no maximum is
  \<open>Infinity\<close>, so \<open>Math.min(remainingIncome, bracketSize)\<close> is \<open>remainingIncome\<close> there.
\<close>

definition bracketStep ::
    "real \<Rightarrow> BracketBreakdown list \<times> real \<times> real \<Rightarrow> TaxBracket
       \<Rightarrow> BracketBreakdown list \<times> real \<times> real" where
  "bracketStep taxableIncome st bracket =
    (let (breakdown, totalTax, remainingIncome) = st
     in if remainingIncome \<le> 0
        then (breakdown @ [\<lparr>bracket = bracket, taxableInBracket = 0, taxForBracket = 0\<rparr>],
              totalTax, remainingIncome)
        else
          (let bracketMin = min_b bracket;
               bracketSize = map_option (\<lambda>bracketMax. bracketMax - bracketMin + 1) (max_b bracket)
           in if rate bracket = 0
              then (if taxableIncome \<le> PIT_EXEMPT_THRESHOLD
                    then (breakdown @ [\<lparr>bracket = bracket, taxableInBracket = taxableIncome,
                                         taxForBracket = 0\<rparr>],
                          totalTax, 0)
                    else (breakdown @ [\<lparr>bracket = bracket,
                                         taxableInBracket = PIT_EXEMPT_THRESHOLD,
                                         taxForBracket = 0\<rparr>],
                          totalTax, taxableIncome - PIT_EXEMPT_THRESHOLD))
              else
                (let taxableInBracket =
                       (case bracketSize of None \<Rightarrow> remainingIncome
                        | Some s \<Rightarrow> min remainingIncome s);
                     taxForBracket = (taxableInBracket * rate bracket) / 100
                 in (breakdown @ [\<lparr>bracket = bracket, taxableInBracket = taxableInBracket,
                                    taxForBracket = taxForBracket\<rparr>],
                     totalTax + taxForBracket, remainingIncome - taxableInBracket))))"
  for taxableIncome bracket

definition progressiveLoop ::
    "TaxBracket list \<Rightarrow> real \<Rightarrow> BracketBreakdown list \<times> real \<times> real" where
  "progressiveLoop brackets taxableIncome =
     foldl (bracketStep taxableIncome) ([], 0, taxableIncome) brackets"
  for taxableIncome

definition calculateProgressiveTax :: "real \<Rightarrow> ProgressiveTax" where
  "calculateProgressiveTax taxableIncome =
    (let (breakdown, totalTax, remainingIncome) = progressiveLoop PIT_BRACKETS taxableIncome
     in \<lparr>ProgressiveTax.totalTax = totalTax, breakdown = breakdown\<rparr>)"
  for taxableIncome

definition calculatePIT :: "IncomeSource list \<Rightarrow> Deduction list \<Rightarrow> bool \<Rightarrow> PITResult" where
  "calculatePIT incomeSources deductions isResident =
    (let grossIncome = calculateGrossIncome incomeSources;
         totalDeductions = total (calculateDeductions deductions grossIncome);
         taxableIncome = max 0 (grossIncome - totalDeductions)
     in if taxableIncome \<le> PIT_EXEMPT_THRESHOLD
        then \<lparr>grossIncome = grossIncome,
              totalDeductions = totalDeductions,
              taxableIncome = taxableIncome,
              PITResult.totalTax = 0,
              netTakeHome = grossIncome - totalDeductions,
              effectiveRate = 0,
              isExempt = True,
              exemptReason = Some (IncomeBelowThreshold taxableIncome PIT_EXEMPT_THRESHOLD),
              bracketBreakdown = [\<lparr>bracket = PIT_BRACKETS ! 0,
                                    taxableInBracket = taxableIncome,
                                    taxForBracket = 0\<rparr>],
              monthlyTax = 0,
              monthlyNetPay = (grossIncome - totalDeductions) / 12\<rparr>
        else
          (let pt = calculateProgressiveTax taxableIncome;
               totalTax = ProgressiveTax.totalTax pt;
               breakdown = breakdown pt;
               finalTax = (if isResident then totalTax else totalTax);
               netTakeHome = grossIncome - totalDeductions - finalTax;
               effectiveRate = (if grossIncome > 0 then (finalTax / grossIncome) * 100 else 0)
           in \<lparr>grossIncome = grossIncome,
                totalDeductions = totalDeductions,
                taxableIncome = taxableIncome,
                PITResult.totalTax = finalTax,
                netTakeHome = netTakeHome,
                effectiveRate = effectiveRate,
                isExempt = False,
                exemptReason = None,
                bracketBreakdown = breakdown,
                monthlyTax = finalTax / 12,
                monthlyNetPay = netTakeHome / 12\<rparr>))"

subsection \<open>Corporate income tax (citCalculator)\<close>

datatype CompanySize = Small | Other

datatype CompanyType = Domestic | Multinational

record CITInput =
  turnover :: real
  assessableProfits :: real
  companyType :: CompanyType
  isMultinationalSubject :: bool
  foreignProfits :: "real option"
  distributedForeignProfits :: "real option"

record CITBreakdownItem =
  label :: string
  amount :: real
  rate :: "real option"
  note_t :: "message option"

record CITResult =
  companySize :: CompanySize
  turnover :: real
  assessableProfits :: real
  citRate :: real
  citAmount :: real
  developmentLevy :: real
  totalTaxBeforeTopUp :: real
  effectiveTaxRate :: real
  minimumTaxTopUp :: real
  cfcTax :: real
  totalTaxPayable :: real
  breakdown :: "CITBreakdownItem list"

definition determineCompanySize :: "real \<Rightarrow> CompanySize" where
  "determineCompanySize t = (if t \<le> SMALL_COMPANY_TURNOVER_LIMIT then Small else Other)"

definition calculateSmallCompanyCIT :: "CITInput \<Rightarrow> CITResult" where
  "calculateSmallCompanyCIT input =
    \<lparr>companySize = Small,
     CITResult.turnover = CITInput.turnover input,
     CITResult.assessableProfits = CITInput.assessableProfits input,
     citRate = SMALL_COMPANY_CIT_RATE,
     citAmount = 0,
     developmentLevy = 0,
     totalTaxBeforeTopUp = 0,
     effectiveTaxRate = 0,
     minimumTaxTopUp = 0,
     cfcTax = 0,
     totalTaxPayable = 0,
     CITResult.breakdown =
       [\<lparr>CITBreakdownItem.label = ''Company Classification'', CITBreakdownItem.amount = 0,
         CITBreakdownItem.rate = None,
         note_t = Some (SmallCompanyClassification SMALL_COMPANY_TURNOVER_LIMIT)\<rparr>,
        \<lparr>CITBreakdownItem.label = ''Corporate Income Tax'', CITBreakdownItem.amount = 0,
         CITBreakdownItem.rate = Some SMALL_COMPANY_CIT_RATE,
         note_t = Some (Plain ''0% CIT rate for small companies'')\<rparr>,
        \<lparr>CITBreakdownItem.label = ''Development Levy'', CITBreakdownItem.amount = 0,
         CITBreakdownItem.rate = Some 0,
         note_t = Some (Plain ''Exempt for small companies'')\<rparr>]\<rparr>"

definition calculateMinimumTaxTopUp :: "real \<Rightarrow> real \<Rightarrow> bool \<Rightarrow> real" where
  "calculateMinimumTaxTopUp profits currentTax isSubjectToMETR =
    (if \<not> isSubjectToMETR \<or> profits \<le> 0 then 0
     else
       (let currentEffectiveRate = (currentTax / profits) * 100
        in if currentEffectiveRate \<ge> MINIMUM_EFFECTIVE_TAX_RATE then 0
           else
             (let minimumTax = (profits * MINIMUM_EFFECTIVE_TAX_RATE) / 100
              in minimumTax - currentTax)))"

text \<open>Both parameters of \<open>calculateCFCTax\<close> default to 0 when the caller passes \<open>undefined\<close>.\<close>

definition calculateCFCTax :: "real option \<Rightarrow> real option \<Rightarrow> real" where
  "calculateCFCTax foreign distributed =
    (let foreignProfits = (case foreign of None \<Rightarrow> 0 | Some v \<Rightarrow> v);
         distributedProfits = (case distributed of None \<Rightarrow> 0 | Some v \<Rightarrow> v);
         undistributedProfits = max 0 (foreignProfits - distributedProfits)
     in (undistributedProfits * CIT_RATE) / 100)"

text \<open>\<open>x && x > 0\<close> on an optional number: false when \<open>x\<close> is undefined or 0.\<close>

definition presentAndPositive :: "real option \<Rightarrow> bool" where
  "presentAndPositive x = (case x of None \<Rightarrow> False | Some v \<Rightarrow> v \<noteq> 0 \<and> v > 0)"

definition calculateOtherCompanyCIT :: "CITInput \<Rightarrow> CITResult" where
  "calculateOtherCompanyCIT input =
    (let breakdown0 = [];
         citAmount = (CITInput.assessableProfits input * CIT_RATE) / 100;
         breakdown1 = breakdown0 @
           [\<lparr>CITBreakdownItem.label = ''Corporate Income Tax'',
             CITBreakdownItem.amount = citAmount,
             CITBreakdownItem.rate = Some CIT_RATE,
             note_t = Some (RateOnAssessableProfits CIT_RATE)\<rparr>];
         developmentLevy = (CITInput.assessableProfits input * DEVELOPMENT_LEVY_RATE) / 100;
         breakdown2 = breakdown1 @
           [\<lparr>CITBreakdownItem.label = ''Development Levy'',
             CITBreakdownItem.amount = developmentLevy,
             CITBreakdownItem.rate = Some DEVELOPMENT_LEVY_RATE,
             note_t = Some (RateOfAssessableProfits DEVELOPMENT_LEVY_RATE)\<rparr>];
         totalTaxBeforeTopUp = citAmount + developmentLevy;
         minimumTaxTopUp =
           calculateMinimumTaxTopUp (CITInput.assessableProfits input) totalTaxBeforeTopUp
             (isMultinationalSubject input);
         breakdown3 =
           (if isMultinationalSubject input
            then breakdown2 @
              [\<lparr>CITBreakdownItem.label = ''Minimum Tax Top-Up (METR 15%)'',
                CITBreakdownItem.amount = minimumTaxTopUp,
                CITBreakdownItem.rate = Some MINIMUM_EFFECTIVE_TAX_RATE,
                note_t = Some (Plain (if minimumTaxTopUp > 0
                  then ''Top-up applied to meet 15% minimum effective rate''
                  else ''No top-up needed - effective rate already >=15%''))\<rparr>]
            else breakdown2);
         cfcTax = calculateCFCTax (foreignProfits input) (distributedForeignProfits input);
         breakdown4 =
           (if presentAndPositive (foreignProfits input)
            then breakdown3 @
              [\<lparr>CITBreakdownItem.label = ''CFC Tax (Foreign Profits)'',
                CITBreakdownItem.amount = cfcTax,
                CITBreakdownItem.rate = Some CIT_RATE,
                note_t = Some (Plain ''Tax on undistributed foreign subsidiary profits'')\<rparr>]
            else breakdown3);
         totalTaxPayable = totalTaxBeforeTopUp + minimumTaxTopUp + cfcTax;
         effectiveTaxRate =
           (if CITInput.assessableProfits input > 0
            then (totalTaxPayable / CITInput.assessableProfits input) * 100
            else 0)
     in \<lparr>companySize = Other,
         CITResult.turnover = CITInput.turnover input,
         CITResult.assessableProfits = CITInput.assessableProfits input,
         citRate = CIT_RATE,
         citAmount = citAmount,
         developmentLevy = developmentLevy,
         totalTaxBeforeTopUp = totalTaxBeforeTopUp,
         effectiveTaxRate = effectiveTaxRate,
         minimumTaxTopUp = minimumTaxTopUp,
         cfcTax = cfcTax,
         totalTaxPayable = totalTaxPayable,
         CITResult.breakdown = breakdown4\<rparr>)"

definition calculateCIT :: "CITInput \<Rightarrow> CITResult" where
  "calculateCIT input =
    (let companySize = determineCompanySize (CITInput.turnover input)
     in if companySize = Small then calculateSmallCompanyCIT input
        else calculateOtherCompanyCIT input)"

subsection \<open>Capital gains tax (cgtCalculator)\<close>

datatype TaxpayerType = Individual | Company

record CGTInput =
  taxpayerType :: TaxpayerType
  saleProceeds :: real
  acquisitionCost :: real
  improvementCosts :: "real option"
  transferCosts :: "real option"
  isOffshoreTransfer :: "bool option"
  companyTurnover :: "real option"

record CGTBreakdownItem =
  label :: message
  amount :: real
  note_t :: "message option"

datatype CGTRate = NumberRate real | TextRate string

record CGTResult =
  taxpayerType :: TaxpayerType
  saleProceeds :: real
  totalCosts :: real
  capitalGain :: real
  cgtRate :: CGTRate
  cgtAmount :: real
  netProceeds :: real
  effectiveRate :: real
  isExempt :: bool
  exemptReason :: "message option"
  breakdown :: "CGTBreakdownItem list"

text \<open>\<open>x || 0\<close> on an optional number.\<close>

definition orZero :: "real option \<Rightarrow> real" where
  "orZero x = (case x of None \<Rightarrow> 0 | Some v \<Rightarrow> v)"

definition calculateTotalCosts :: "CGTInput \<Rightarrow> real" where
  "calculateTotalCosts input =
     acquisitionCost input + orZero (improvementCosts input) + orZero (transferCosts input)"

definition item :: "string \<Rightarrow> real \<Rightarrow> CGTBreakdownItem" where
  "item l a = \<lparr>CGTBreakdownItem.label = Plain l, CGTBreakdownItem.amount = a,
               CGTBreakdownItem.note_t = None\<rparr>"

definition itemNote :: "string \<Rightarrow> real \<Rightarrow> string \<Rightarrow> CGTBreakdownItem" where
  "itemNote l a n = \<lparr>CGTBreakdownItem.label = Plain l, CGTBreakdownItem.amount = a,
                     CGTBreakdownItem.note_t = Some (Plain n)\<rparr>"

text \<open>\<open>if (x && x > 0) breakdown.push({ label, amount: x })\<close> on an optional number.\<close>

definition optionalLine :: "string \<Rightarrow> real option \<Rightarrow> CGTBreakdownItem list" where
  "optionalLine l x =
     (case x of None \<Rightarrow> [] | Some v \<Rightarrow> if v \<noteq> 0 \<and> v > 0 then [item l v] else [])"

text \<open>The lines pushed by both taxed paths before the tax lines.\<close>

definition costLines :: "CGTInput \<Rightarrow> real \<Rightarrow> CGTBreakdownItem list" where
  "costLines input gain =
     [item ''Sale Proceeds'' (CGTInput.saleProceeds input),
      item ''Acquisition Cost'' (acquisitionCost input)]
     @ optionalLine ''Improvement Costs'' (improvementCosts input)
     @ optionalLine ''Transfer Costs'' (transferCosts input)
     @ [item ''Capital Gain'' gain]"

text \<open>The breakdown of both exempt paths, which differ in the note of the last line.\<close>

definition exemptLines :: "CGTInput \<Rightarrow> real \<Rightarrow> string \<Rightarrow> CGTBreakdownItem list" where
  "exemptLines input gain n =
     [item ''Sale Proceeds'' (CGTInput.saleProceeds input),
      item ''Acquisition Cost'' (acquisitionCost input),
      item ''Improvement Costs'' (orZero (improvementCosts input)),
      item ''Transfer Costs'' (orZero (transferCosts input)),
      item ''Capital Gain'' gain,
      itemNote ''CGT (Exempt)'' 0 n]"

definition calculateCompanyCGT :: "CGTInput \<Rightarrow> CGTResult" where
  "calculateCompanyCGT input =
    (let totalCosts = calculateTotalCosts input;
         capitalGain = max 0 (CGTInput.saleProceeds input - totalCosts);
         isSmallCompany =
           (case companyTurnover input of None \<Rightarrow> False
            | Some t \<Rightarrow> t \<le> SMALL_COMPANY_TURNOVER_LIMIT)
     in if isSmallCompany
        then \<lparr>CGTResult.taxpayerType = Company,
              CGTResult.saleProceeds = CGTInput.saleProceeds input,
              totalCosts = totalCosts,
              capitalGain = capitalGain,
              cgtRate = NumberRate SMALL_COMPANY_CGT_RATE,
              cgtAmount = 0,
              netProceeds = CGTInput.saleProceeds input,
              CGTResult.effectiveRate = 0,
              CGTResult.isExempt = True,
              CGTResult.exemptReason = Some (SmallCompanyCGTExempt SMALL_COMPANY_TURNOVER_LIMIT),
              CGTResult.breakdown = exemptLines input capitalGain ''Small company exemption''\<rparr>
        else
          (let cgtAmount = (capitalGain * COMPANY_CGT_RATE) / 100;
               breakdown = costLines input capitalGain @
                 [\<lparr>CGTBreakdownItem.label = Plain ''CGT (30%)'',
                   CGTBreakdownItem.amount = cgtAmount,
                   CGTBreakdownItem.note_t =
                     (if isOffshoreTransfer input = Some True
                      then Some (Plain ''Includes indirect offshore share transfer'')
                      else None)\<rparr>]
           in \<lparr>CGTResult.taxpayerType = Company,
                CGTResult.saleProceeds = CGTInput.saleProceeds input,
                totalCosts = totalCosts,
                capitalGain = capitalGain,
                cgtRate = NumberRate COMPANY_CGT_RATE,
                cgtAmount = cgtAmount,
                netProceeds = CGTInput.saleProceeds input - cgtAmount,
                CGTResult.effectiveRate =
                  (if CGTInput.saleProceeds input > 0
                   then (cgtAmount / CGTInput.saleProceeds input) * 100 else 0),
                CGTResult.isExempt = False,
                CGTResult.exemptReason = None,
                CGTResult.breakdown = breakdown\<rparr>))"

definition calculateIndividualCGT :: "CGTInput \<Rightarrow> CGTResult" where
  "calculateIndividualCGT input =
    (let totalCosts = calculateTotalCosts input;
         capitalGain = max 0 (CGTInput.saleProceeds input - totalCosts);
         exemptThreshold = 800000
     in if capitalGain \<le> exemptThreshold
        then \<lparr>CGTResult.taxpayerType = Individual,
              CGTResult.saleProceeds = CGTInput.saleProceeds input,
              totalCosts = totalCosts,
              capitalGain = capitalGain,
              cgtRate = TextRate ''0%'',
              cgtAmount = 0,
              netProceeds = CGTInput.saleProceeds input,
              CGTResult.effectiveRate = 0,
              CGTResult.isExempt = True,
              CGTResult.exemptReason = Some (GainBelowThreshold capitalGain exemptThreshold),
              CGTResult.breakdown = exemptLines input capitalGain ''Below exempt threshold''\<rparr>
        else
          (let pt = calculateProgressiveTax capitalGain;
               totalTax = ProgressiveTax.totalTax pt;
               bracketBreakdown = ProgressiveTax.breakdown pt;
               breakdown = costLines input capitalGain
                 @ map (\<lambda>b. \<lparr>CGTBreakdownItem.label = TaxAtRate (TaxBracket.rate (bracket b)),
                               CGTBreakdownItem.amount = taxForBracket b,
                               CGTBreakdownItem.note_t = Some (OnAmount (taxableInBracket b))\<rparr>)
                     (filter (\<lambda>b. taxableInBracket b > 0) bracketBreakdown)
                 @ [item ''Total CGT'' totalTax];
               effectiveRate = (if capitalGain > 0 then (totalTax / capitalGain) * 100 else 0)
           in \<lparr>CGTResult.taxpayerType = Individual,
                CGTResult.saleProceeds = CGTInput.saleProceeds input,
                totalCosts = totalCosts,
                capitalGain = capitalGain,
                cgtRate = TextRate ''Progressive (max 25%)'',
                cgtAmount = totalTax,
                netProceeds = CGTInput.saleProceeds input - totalTax,
                CGTResult.effectiveRate = effectiveRate,
                CGTResult.isExempt = False,
                CGTResult.exemptReason = None,
                CGTResult.breakdown = breakdown\<rparr>))"

definition calculateCGT :: "CGTInput \<Rightarrow> CGTResult" where
  "calculateCGT input =
    (if CGTInput.taxpayerType input = Company then calculateCompanyCGT input
     else calculateIndividualCGT input)"

subsection \<open>Doubles\<close>

text \<open>
  A JavaScript number is an IEEE 754 double: a finite value, one of the two infinities,
  or \<open>NaN\<close>. The finite doubles are the multiples \<open>k * 2^(e - 52)\<close> with
  \<open>\<bar>k\<bar> < 2^53\<close> and \<open>-1022 \<le> e \<le> 1023\<close>. The sign of zero is not modelled: it shows
  only in a division by zero, and the one division of the VAT calculator divides by
  \<open>1 + VAT_RATE / 100\<close>.

  \<open>roundHalfEven\<close> rounds to the nearest integer, a tie to the even one.
  \<open>exponent x\<close> is the exponent \<open>e\<close> with \<open>2^e \<le> \<bar>x\<bar> < 2^(e + 1)\<close>, kept within
  \<open>-1022\<close> (below it the doubles are subnormal and share the spacing \<open>2^-1074\<close>) and
  \<open>1024\<close> (where every value overflows); \<open>ulp x\<close> is the spacing of the doubles
  around \<open>x\<close>. \<open>roundToDouble\<close> rounds a real to the nearest multiple of that spacing,
  and \<open>fl\<close> is the result of an operation whose exact value is \<open>x\<close>: the rounded value,
  or an infinity when it is beyond the largest double.
\<close>

datatype number = Fin real | PosInf | NegInf | NaN

definition roundHalfEven :: "real \<Rightarrow> int" where
  "roundHalfEven r =
    (let f = \<lfloor>r\<rfloor>; d = r - of_int f
     in if d < 1 / 2 then f else if d > 1 / 2 then f + 1 else if even f then f else f + 1)"

fun normalizeUp :: "nat \<Rightarrow> real \<Rightarrow> int" where
  "normalizeUp 0 x = 0"
| "normalizeUp (Suc n) x = (if x < 2 then 0 else 1 + normalizeUp n (x / 2))"

fun normalizeDown :: "nat \<Rightarrow> real \<Rightarrow> int" where
  "normalizeDown 0 x = 0"
| "normalizeDown (Suc n) x = (if 1 \<le> x then 0 else normalizeDown n (2 * x) - 1)"

definition exponent :: "real \<Rightarrow> int" where
  "exponent x = (if 1 \<le> \<bar>x\<bar> then normalizeUp 1024 \<bar>x\<bar> else normalizeDown 1022 \<bar>x\<bar>)"

definition ulp :: "real \<Rightarrow> real" where
  "ulp x = 2 powi (exponent x - 52)"

definition roundToDouble :: "real \<Rightarrow> real" where
  "roundToDouble x = of_int (roundHalfEven (x / ulp x)) * ulp x"

definition MAX_VALUE :: real where
  "MAX_VALUE = 2 ^ 1024 - 2 ^ 971"

definition fl :: "real \<Rightarrow> number" where
  "fl x = (let y = roundToDouble x
           in if y > MAX_VALUE then PosInf else if y < - MAX_VALUE then NegInf else Fin y)"

text \<open>
  The arithmetic operators \<open>+\<close>, unary and binary \<open>-\<close>, \<open>*\<close> and \<open>/\<close> on doubles:
  the exact result of finite operands is rounded by \<open>fl\<close>, and the infinities and \<open>NaN\<close>
  follow IEEE 754.
\<close>

definition signedInfinity :: "real \<Rightarrow> number" where
  "signedInfinity s = (if s > 0 then PosInf else if s < 0 then NegInf else NaN)"

fun num_add :: "number \<Rightarrow> number \<Rightarrow> number" where
  "num_add NaN _ = NaN"
| "num_add _ NaN = NaN"
| "num_add (Fin a) (Fin b) = fl (a + b)"
| "num_add PosInf NegInf = NaN"
| "num_add NegInf PosInf = NaN"
| "num_add PosInf _ = PosInf"
| "num_add NegInf _ = NegInf"
| "num_add _ PosInf = PosInf"
| "num_add _ NegInf = NegInf"

fun num_neg :: "number \<Rightarrow> number" where
  "num_neg (Fin a) = Fin (- a)"
| "num_neg PosInf = NegInf"
| "num_neg NegInf = PosInf"
| "num_neg NaN = NaN"

definition num_sub :: "number \<Rightarrow> number \<Rightarrow> number" where
  "num_sub a b = num_add a (num_neg b)"

fun num_mul :: "number \<Rightarrow> number \<Rightarrow> number" where
  "num_mul NaN _ = NaN"
| "num_mul _ NaN = NaN"
| "num_mul (Fin a) (Fin b) = fl (a * b)"
| "num_mul (Fin a) PosInf = signedInfinity a"
| "num_mul (Fin a) NegInf = signedInfinity (- a)"
| "num_mul PosInf (Fin b) = signedInfinity b"
| "num_mul NegInf (Fin b) = signedInfinity (- b)"
| "num_mul PosInf PosInf = PosInf"
| "num_mul PosInf NegInf = NegInf"
| "num_mul NegInf PosInf = NegInf"
| "num_mul NegInf NegInf = PosInf"

fun num_div :: "number \<Rightarrow> number \<Rightarrow> number" where
  "num_div NaN _ = NaN"
| "num_div _ NaN = NaN"
| "num_div (Fin a) (Fin b) = (if b = 0 then signedInfinity a else fl (a / b))"
| "num_div (Fin a) _ = Fin 0"
| "num_div PosInf (Fin b) = (if b < 0 then NegInf else PosInf)"
| "num_div NegInf (Fin b) = (if b < 0 then PosInf else NegInf)"
| "num_div _ _ = NaN"

subsection \<open>Value added tax (vatCalculator)\<close>

datatype VATCalculationType = Inclusive | Exclusive

record VATInput =
  amount :: number
  calculationType :: VATCalculationType

record VATResult =
  originalAmount :: number
  vatRate :: number
  vatAmount :: number
  netAmount :: number
  grossAmount :: number
  calculationType :: VATCalculationType

definition calculateVAT :: "VATInput \<Rightarrow> VATResult" where
  "calculateVAT input =
    (let vatRate = Fin VAT_RATE;
         vatMultiplier = num_div vatRate (Fin 100)
     in if VATInput.calculationType input = Exclusive
        then
          (let netAmount = VATInput.amount input;
               vatAmount = num_mul netAmount vatMultiplier;
               grossAmount = num_add netAmount vatAmount
           in \<lparr>originalAmount = VATInput.amount input,
                vatRate = vatRate,
                vatAmount = vatAmount,
                netAmount = netAmount,
                grossAmount = grossAmount,
                VATResult.calculationType = Exclusive\<rparr>)
        else
          (let grossAmount = VATInput.amount input;
               netAmount = num_div grossAmount (num_add (Fin 1) vatMultiplier);
               vatAmount = num_sub grossAmount netAmount
           in \<lparr>originalAmount = VATInput.amount input,
                vatRate = vatRate,
                vatAmount = vatAmount,
                netAmount = netAmount,
                grossAmount = grossAmount,
                VATResult.calculationType = Inclusive\<rparr>))"

subsection \<open>Vocabulary of the properties\<close>

text \<open>
  These two definitions are not code of the repository; the statements below use them.
  A bracket is well formed when its rate is not negative and its size
  \<open>max - min + 1\<close> is not negative; \<open>categoryTotal c as\<close> is the total amount that the
  entries of category \<open>c\<close> contribute to a list of applied deductions.
\<close>

definition wellFormedBracket :: "TaxBracket \<Rightarrow> bool" where
  "wellFormedBracket b \<longleftrightarrow>
     0 \<le> TaxBracket.rate b
     \<and> (case max_b b of None \<Rightarrow> True | Some m \<Rightarrow> 0 \<le> m - min_b b + 1)"

definition categoryTotal :: "string \<Rightarrow> AppliedDeduction list \<Rightarrow> real" where
  "categoryTotal c as =
     sum_list (map AppliedDeduction.amount (filter (\<lambda>a. AppliedDeduction.type a = c) as))"

section \<open>Properties\<close>

subsection \<open>The bracket loop\<close>

lemmas progressive_eval =
  calculateProgressiveTax_def progressiveLoop_def PIT_BRACKETS_def bracketStep_def
  PIT_EXEMPT_THRESHOLD_def Let_def

text \<open>Each step adds to \<open>totalTax\<close> exactly the tax of the entry it appends.\<close>

lemma bracketStep_sum:
  "bracketStep A (bd, tot, rem) b = (bd', tot', rem') \<Longrightarrow>
   tot' - sum_list (map taxForBracket bd') = tot - sum_list (map taxForBracket bd)"
  by (auto simp: bracketStep_def Let_def split: if_splits option.splits)

lemma bracketLoop_sum:
  "foldl (bracketStep A) (bd, tot, rem) bs = (bd', tot', rem') \<Longrightarrow>
   tot' - sum_list (map taxForBracket bd') = tot - sum_list (map taxForBracket bd)"
proof (induction bs arbitrary: bd tot rem)
  case Nil
  then show ?case by simp
next
  case (Cons b bs)
  obtain bd1 tot1 rem1 where s: "bracketStep A (bd, tot, rem) b = (bd1, tot1, rem1)"
    by (cases "bracketStep A (bd, tot, rem) b") auto
  with Cons.prems have "foldl (bracketStep A) (bd1, tot1, rem1) bs = (bd', tot', rem')"
    by simp
  from Cons.IH[OF this] bracketStep_sum[OF s] show ?case by simp
qed

text \<open>
  Two runs of the loop, the second on the larger taxable amount: a step keeps the order
  of the accumulated taxes and of the remaining incomes.
\<close>

lemma scale_mono: "x \<le> y \<Longrightarrow> 0 \<le> r \<Longrightarrow> x * r / 100 \<le> y * (r::real) / 100"
  by (simp add: mult_right_mono divide_right_mono)

lemma scale_nonneg: "0 \<le> x \<Longrightarrow> 0 \<le> r \<Longrightarrow> 0 \<le> x * (r::real) / 100"
  by simp

lemma bracketStep_mono:
  assumes "A1 \<le> A2" "wellFormedBracket b" "tot1 \<le> tot2" "rem1 \<le> rem2"
    and "bracketStep A1 (bd1, tot1, rem1) b = (bd1', tot1', rem1')"
    and "bracketStep A2 (bd2, tot2, rem2) b = (bd2', tot2', rem2')"
  shows "tot1' \<le> tot2' \<and> rem1' \<le> rem2'"
proof (cases "TaxBracket.rate b = 0")
  case True
  with assms show ?thesis
    by (auto simp: bracketStep_def Let_def PIT_EXEMPT_THRESHOLD_def split: if_splits)
next
  case False
  with assms(2) have r: "0 \<le> TaxBracket.rate b" by (simp add: wellFormedBracket_def)
  show ?thesis
  proof (cases "max_b b")
    case None
    show ?thesis
    proof (cases "rem1 \<le> 0")
      case True
      show ?thesis
      proof (cases "rem2 \<le> 0")
        case True
        with \<open>rem1 \<le> 0\<close> assms False None show ?thesis
          by (auto simp: bracketStep_def Let_def)
      next
        case F2: False
        then have "0 \<le> rem2 * TaxBracket.rate b / 100" using r by simp
        with True F2 assms False None show ?thesis
          by (auto simp: bracketStep_def Let_def)
      qed
    next
      case F1: False
      then have F2: "\<not> rem2 \<le> 0" using assms(4) by simp
      have "rem1 * TaxBracket.rate b / 100 \<le> rem2 * TaxBracket.rate b / 100"
        using assms(4) r by (rule scale_mono)
      with F1 F2 assms False None show ?thesis
        by (auto simp: bracketStep_def Let_def)
    qed
  next
    case (Some m)
    define s where "s = m - min_b b + 1"
    have s: "0 \<le> s" using assms(2) Some by (simp add: wellFormedBracket_def s_def)
    show ?thesis
    proof (cases "rem1 \<le> 0")
      case True
      show ?thesis
      proof (cases "rem2 \<le> 0")
        case True
        with \<open>rem1 \<le> 0\<close> assms False Some show ?thesis
          by (auto simp: bracketStep_def Let_def)
      next
        case F2: False
        then have "0 \<le> min rem2 s" using s by simp
        then have "0 \<le> min rem2 s * TaxBracket.rate b / 100" using r by (rule scale_nonneg)
        moreover have "min rem2 s \<le> rem2" by simp
        ultimately show ?thesis using True F2 assms False Some
          by (auto simp: bracketStep_def Let_def s_def)
      qed
    next
      case F1: False
      then have F2: "\<not> rem2 \<le> 0" using assms(4) by simp
      have "min rem1 s \<le> min rem2 s" using assms(4) by simp
      then have "min rem1 s * TaxBracket.rate b / 100 \<le> min rem2 s * TaxBracket.rate b / 100"
        using r by (rule scale_mono)
      moreover have "rem1 - min rem1 s \<le> rem2 - min rem2 s"
        using assms(4) by (simp add: min_def)
      ultimately show ?thesis using F1 F2 assms False Some
        by (auto simp: bracketStep_def Let_def s_def)
    qed
  qed
qed

lemma bracketLoop_mono:
  assumes "A1 \<le> A2" "\<forall>b \<in> set bs. wellFormedBracket b" "tot1 \<le> tot2" "rem1 \<le> rem2"
    and "foldl (bracketStep A1) (bd1, tot1, rem1) bs = (bd1', tot1', rem1')"
    and "foldl (bracketStep A2) (bd2, tot2, rem2) bs = (bd2', tot2', rem2')"
  shows "tot1' \<le> tot2'"
  using assms
proof (induction bs arbitrary: bd1 tot1 rem1 bd2 tot2 rem2)
  case Nil
  then show ?case by simp
next
  case (Cons b bs)
  obtain c1 t1 r1 where s1: "bracketStep A1 (bd1, tot1, rem1) b = (c1, t1, r1)"
    by (cases "bracketStep A1 (bd1, tot1, rem1) b") auto
  obtain c2 t2 r2 where s2: "bracketStep A2 (bd2, tot2, rem2) b = (c2, t2, r2)"
    by (cases "bracketStep A2 (bd2, tot2, rem2) b") auto
  have wf: "wellFormedBracket b" using Cons.prems(2) by simp
  have m: "t1 \<le> t2 \<and> r1 \<le> r2"
    using bracketStep_mono[OF Cons.prems(1) wf Cons.prems(3) Cons.prems(4) s1 s2] .
  have f1: "foldl (bracketStep A1) (c1, t1, r1) bs = (bd1', tot1', rem1')"
    using Cons.prems(5) s1 by simp
  have f2: "foldl (bracketStep A2) (c2, t2, r2) bs = (bd2', tot2', rem2')"
    using Cons.prems(6) s2 by simp
  show ?case
    using Cons.IH[OF Cons.prems(1) _ _ _ f1 f2] Cons.prems(2) m by simp
qed

lemma PIT_BRACKETS_wellFormed: "\<forall>b \<in> set PIT_BRACKETS. wellFormedBracket b"
  by (simp add: PIT_BRACKETS_def wellFormedBracket_def)

subsection \<open>The rounding of doubles\<close>

text \<open>
  Rounding moves a value by at most half the spacing, which is at most \<open>2^-53\<close> of
  the value, or \<open>2^-1075\<close> among the subnormal doubles.
\<close>

lemma roundHalfEven_error: "\<bar>of_int (roundHalfEven r) - r\<bar> \<le> 1 / 2"
  unfolding roundHalfEven_def Let_def by (auto; linarith)

lemma normalizeUp_le: "1 \<le> x \<Longrightarrow> 2 powi (normalizeUp n x) \<le> x"
proof (induction n arbitrary: x)
  case 0
  then show ?case by simp
next
  case (Suc n)
  show ?case
  proof (cases "x < 2")
    case True
    with Suc.prems show ?thesis by simp
  next
    case False
    then have "1 \<le> x / 2" by simp
    from Suc.IH[OF this] have "2 powi (normalizeUp n (x / 2)) \<le> x / 2" .
    with False show ?thesis by (simp add: power_int_add)
  qed
qed

lemma normalizeDown_le:
  "0 \<le> x \<Longrightarrow> x < 1 \<Longrightarrow> 2 powi (normalizeDown n x) \<le> x \<or> normalizeDown n x = - int n"
proof (induction n arbitrary: x)
  case 0
  then show ?case by simp
next
  case (Suc n)
  show ?case
  proof (cases "1 \<le> 2 * x")
    case True
    then have "normalizeDown n (2 * x) = 0" by (cases n) simp_all
    with Suc.prems True show ?thesis by simp
  next
    case False
    then have "2 * x < 1" "0 \<le> 2 * x" using Suc.prems by simp_all
    from Suc.IH[OF this(2) this(1)] Suc.prems show ?thesis
      by (auto simp: power_int_diff)
  qed
qed

lemma ulp_pos: "0 < ulp x"
  by (simp add: ulp_def)

lemma ulp_bound: "ulp x \<le> \<bar>x\<bar> / 2 ^ 52 + 1 / 2 ^ 1074"
proof (cases "1 \<le> \<bar>x\<bar>")
  case True
  then have "2 powi (exponent x) \<le> \<bar>x\<bar>"
    by (simp add: exponent_def normalizeUp_le)
  then have "2 powi (exponent x) / 2 ^ 52 \<le> \<bar>x\<bar> / 2 ^ 52"
    by (simp add: divide_right_mono)
  then show ?thesis
    by (simp add: ulp_def power_int_diff)
next
  case False
  then have e: "exponent x = normalizeDown 1022 \<bar>x\<bar>" by (simp add: exponent_def)
  from False have "0 \<le> \<bar>x\<bar>" "\<bar>x\<bar> < 1" by simp_all
  from normalizeDown_le[OF this, of 1022]
  consider "2 powi (exponent x) \<le> \<bar>x\<bar>" | "exponent x = - 1022"
    using e by auto
  then show ?thesis
  proof cases
    case 1
    then have "2 powi (exponent x) / 2 ^ 52 \<le> \<bar>x\<bar> / 2 ^ 52"
      by (simp add: divide_right_mono)
    then show ?thesis by (simp add: ulp_def power_int_diff)
  next
    case 2
    have "(2::real) powi (- 1074) = 1 / 2 ^ 1074"
      by (simp add: power_int_minus field_simps)
    with 2 show ?thesis by (simp add: ulp_def)
  qed
qed

lemma roundToDouble_ulp: "\<bar>roundToDouble x - x\<bar> \<le> ulp x / 2"
proof -
  have "roundToDouble x - x = (of_int (roundHalfEven (x / ulp x)) - x / ulp x) * ulp x"
    using ulp_pos[of x] by (simp add: roundToDouble_def field_simps)
  then have "\<bar>roundToDouble x - x\<bar> = \<bar>of_int (roundHalfEven (x / ulp x)) - x / ulp x\<bar> * ulp x"
    using ulp_pos[of x] by (simp add: abs_mult)
  also have "\<dots> \<le> 1 / 2 * ulp x"
    using roundHalfEven_error[of "x / ulp x"] ulp_pos[of x] by (intro mult_right_mono) simp_all
  finally show ?thesis by simp
qed

lemma roundToDouble_error: "\<bar>roundToDouble x - x\<bar> \<le> \<bar>x\<bar> / 2 ^ 53 + 1 / 2 ^ 1075"
  using roundToDouble_ulp[of x] ulp_bound[of x] by simp

lemma fl_finite:
  assumes "\<bar>x\<bar> \<le> 10 ^ 10"
  shows "fl x = Fin (roundToDouble x)"
proof -
  have "\<bar>x\<bar> / 2 ^ 53 \<le> \<bar>x\<bar>" by (simp add: field_simps)
  with roundToDouble_error[of x] assms have "\<bar>roundToDouble x\<bar> \<le> 3 * 10 ^ 10"
    by simp
  moreover have "(3 * 10 ^ 10 :: real) \<le> MAX_VALUE" by (simp add: MAX_VALUE_def)
  ultimately have "\<not> roundToDouble x > MAX_VALUE" "\<not> roundToDouble x < - MAX_VALUE"
    by linarith+
  then show ?thesis by (simp add: fl_def Let_def)
qed

text \<open>Evaluation of the rounding at a concrete value, and the two constants of \<open>calculateVAT\<close>.\<close>

lemma normalizeUp_numeral:
  "normalizeUp (numeral k) x = (if x < 2 then 0 else 1 + normalizeUp (pred_numeral k) (x / 2))"
  by (simp add: numeral_eq_Suc)

lemma normalizeDown_numeral:
  "normalizeDown (numeral k) x =
     (if 1 \<le> x then 0 else normalizeDown (pred_numeral k) (2 * x) - 1)"
  by (simp add: numeral_eq_Suc)

lemmas double_eval =
  fl_def roundToDouble_def ulp_def exponent_def roundHalfEven_def MAX_VALUE_def Let_def
  normalizeUp_numeral normalizeDown_numeral power_int_minus

lemma vatMultiplier_value:
  "num_div (Fin VAT_RATE) (Fin 100) = Fin (5404319552844595 / 72057594037927936)"
  by (simp add: VAT_RATE_def double_eval)

lemma divisor_value:
  "num_add (Fin 1) (Fin (5404319552844595 / 72057594037927936))
     = Fin (4841369599423283 / 4503599627370496)"
  by (simp add: double_eval)

lemma exclusive_gross:
  "grossAmount (calculateVAT \<lparr>VATInput.amount = Fin N, calculationType = Exclusive\<rparr>)
     = num_add (Fin N) (num_mul (Fin N) (Fin (5404319552844595 / 72057594037927936)))"
  by (simp add: calculateVAT_def Let_def vatMultiplier_value del: num_div.simps num_add.simps num_mul.simps)

lemma inclusive_net:
  "netAmount (calculateVAT \<lparr>VATInput.amount = G, calculationType = Inclusive\<rparr>)
     = num_div G (Fin (4841369599423283 / 4503599627370496))"
  by (simp add: calculateVAT_def Let_def vatMultiplier_value divisor_value del: num_div.simps num_add.simps num_mul.simps)

section \<open>The claims\<close>

text \<open>
  C1. On every path of \<open>calculateCGT\<close>, \<open>effectiveRate\<close> is to be \<open>cgtAmount\<close> divided by
  \<open>saleProceeds\<close>, times 100. The company path computes that; the taxed individual
  path divides by \<open>capitalGain\<close>. An individual who sells for 2,000,000 an asset bought
  for 500,000 owes 105,000: the result has \<open>effectiveRate = 7\<close> (105,000 over the gain
  of 1,500,000), where \<open>cgtAmount / saleProceeds * 100\<close> is 5.25.
\<close>

theorem individual_cgt_effective_rate_on_gain:
  "cgtAmount (calculateCGT
      \<lparr>CGTInput.taxpayerType = Individual, CGTInput.saleProceeds = 2000000,
       acquisitionCost = 500000, improvementCosts = None, transferCosts = None,
       isOffshoreTransfer = None, companyTurnover = None\<rparr>) = 105000
   \<and> CGTResult.saleProceeds (calculateCGT
      \<lparr>CGTInput.taxpayerType = Individual, CGTInput.saleProceeds = 2000000,
       acquisitionCost = 500000, improvementCosts = None, transferCosts = None,
       isOffshoreTransfer = None, companyTurnover = None\<rparr>) = 2000000
   \<and> capitalGain (calculateCGT
      \<lparr>CGTInput.taxpayerType = Individual, CGTInput.saleProceeds = 2000000,
       acquisitionCost = 500000, improvementCosts = None, transferCosts = None,
       isOffshoreTransfer = None, companyTurnover = None\<rparr>) = 1500000
   \<and> CGTResult.effectiveRate (calculateCGT
      \<lparr>CGTInput.taxpayerType = Individual, CGTInput.saleProceeds = 2000000,
       acquisitionCost = 500000, improvementCosts = None, transferCosts = None,
       isOffshoreTransfer = None, companyTurnover = None\<rparr>) = 7
   \<and> CGTResult.effectiveRate (calculateCGT
      \<lparr>CGTInput.taxpayerType = Individual, CGTInput.saleProceeds = 2000000,
       acquisitionCost = 500000, improvementCosts = None, transferCosts = None,
       isOffshoreTransfer = None, companyTurnover = None\<rparr>) \<noteq> (105000 / 2000000) * 100"
  by (simp add: calculateCGT_def calculateIndividualCGT_def calculateTotalCosts_def orZero_def
      progressive_eval)

text \<open>
  C2. For every taxable amount \<open>A \<ge> 0\<close>, the \<open>totalTax\<close> returned by
  \<open>calculateProgressiveTax\<close> is exactly the sum of the \<open>taxForBracket\<close> fields of the
  breakdown it returns.
\<close>

theorem total_is_sum_of_breakdown:
  assumes "0 \<le> A"
  shows "ProgressiveTax.totalTax (calculateProgressiveTax A) =
     sum_list (map taxForBracket (ProgressiveTax.breakdown (calculateProgressiveTax A)))"
proof -
  obtain bd tot rem where s: "progressiveLoop PIT_BRACKETS A = (bd, tot, rem)"
    by (cases "progressiveLoop PIT_BRACKETS A") auto
  then have "foldl (bracketStep A) ([], 0, A) PIT_BRACKETS = (bd, tot, rem)"
    by (simp add: progressiveLoop_def)
  from bracketLoop_sum[OF this] s show ?thesis
    by (simp add: calculateProgressiveTax_def)
qed

theorem total_is_sum_of_breakdown_witness:
  "sum_list (map taxForBracket (ProgressiveTax.breakdown (calculateProgressiveTax 1000000)))
   = 30000"
proof -
  have t: "ProgressiveTax.totalTax (calculateProgressiveTax 1000000) = 30000"
    by (simp add: progressive_eval)
  have "(0::real) \<le> 1000000" by simp
  from total_is_sum_of_breakdown [OF this] t show ?thesis by simp
qed

text \<open>
  C3. \<open>calculateProgressiveTax\<close> is monotonic: for \<open>0 \<le> A1 < A2\<close>, the total tax on
  \<open>A1\<close> is at most the total tax on \<open>A2\<close>.
\<close>

theorem progressive_tax_monotonic:
  assumes "0 \<le> A1" "A1 < A2"
  shows "ProgressiveTax.totalTax (calculateProgressiveTax A1)
         \<le> ProgressiveTax.totalTax (calculateProgressiveTax A2)"
proof -
  obtain c1 t1 r1 where s1: "foldl (bracketStep A1) ([], 0, A1) PIT_BRACKETS = (c1, t1, r1)"
    by (cases "foldl (bracketStep A1) ([], 0, A1) PIT_BRACKETS") auto
  obtain c2 t2 r2 where s2: "foldl (bracketStep A2) ([], 0, A2) PIT_BRACKETS = (c2, t2, r2)"
    by (cases "foldl (bracketStep A2) ([], 0, A2) PIT_BRACKETS") auto
  have le: "A1 \<le> A2" using assms(2) by simp
  have "t1 \<le> t2"
    using bracketLoop_mono[OF le PIT_BRACKETS_wellFormed _ le s1 s2] by simp
  then show ?thesis using s1 s2
    by (simp add: calculateProgressiveTax_def progressiveLoop_def)
qed

theorem progressive_tax_monotonic_witness:
  "ProgressiveTax.totalTax (calculateProgressiveTax 1000000) \<le> 105000"
proof -
  have t: "ProgressiveTax.totalTax (calculateProgressiveTax 1500000) = 105000"
    by (simp add: progressive_eval)
  have "(0::real) \<le> 1000000" and "(1000000::real) < 1500000" by simp_all
  from progressive_tax_monotonic [OF this] t show ?thesis by simp
qed

text \<open>
  C4. When the taxable income of \<open>calculatePIT\<close> is at most 800,000 the result has
  \<open>totalTax = 0\<close> and \<open>isExempt = true\<close>; when the capital gain of an individual is at
  most 800,000 the result of \<open>calculateCGT\<close> has \<open>cgtAmount = 0\<close> and \<open>isExempt = true\<close>.
\<close>

theorem exempt_at_or_below_threshold:
  "(PITResult.taxableIncome (calculatePIT incomes deductions r) \<le> 800000 \<longrightarrow>
      PITResult.totalTax (calculatePIT incomes deductions r) = 0
      \<and> PITResult.isExempt (calculatePIT incomes deductions r))
   \<and> (CGTInput.taxpayerType g = Individual \<and> capitalGain (calculateCGT g) \<le> 800000 \<longrightarrow>
      cgtAmount (calculateCGT g) = 0 \<and> CGTResult.isExempt (calculateCGT g))"
  by (simp add: calculatePIT_def PIT_EXEMPT_THRESHOLD_def calculateCGT_def
      calculateIndividualCGT_def Let_def)

text \<open>
  A salary of exactly 800,000 with no deductions, and an individual's gain of exactly
  800,000 (sale at 1,300,000 of an asset bought for 500,000).
\<close>

theorem exempt_at_or_below_threshold_witness:
  "PITResult.totalTax (calculatePIT
       [\<lparr>IncomeSource.type = ''salary'', IncomeSource.amount = 800000\<rparr>] [] True) = 0
   \<and> PITResult.isExempt (calculatePIT
       [\<lparr>IncomeSource.type = ''salary'', IncomeSource.amount = 800000\<rparr>] [] True)
   \<and> cgtAmount (calculateCGT
       \<lparr>CGTInput.taxpayerType = Individual, CGTInput.saleProceeds = 1300000,
        acquisitionCost = 500000, improvementCosts = None, transferCosts = None,
        isOffshoreTransfer = None, companyTurnover = None\<rparr>) = 0
   \<and> CGTResult.isExempt (calculateCGT
       \<lparr>CGTInput.taxpayerType = Individual, CGTInput.saleProceeds = 1300000,
        acquisitionCost = 500000, improvementCosts = None, transferCosts = None,
        isOffshoreTransfer = None, companyTurnover = None\<rparr>)"
proof -
  let ?s = "[\<lparr>IncomeSource.type = ''salary'', IncomeSource.amount = 800000\<rparr>]"
  let ?g = "\<lparr>CGTInput.taxpayerType = Individual, CGTInput.saleProceeds = 1300000,
        acquisitionCost = 500000, improvementCosts = None, transferCosts = None,
        isOffshoreTransfer = None, companyTurnover = None\<rparr>"
  have h1: "PITResult.taxableIncome (calculatePIT ?s [] True) \<le> 800000"
    by (simp add: calculatePIT_def calculateGrossIncome_def calculateDeductions_def
        PIT_EXEMPT_THRESHOLD_def Let_def)
  have h2: "CGTInput.taxpayerType ?g = Individual \<and> capitalGain (calculateCGT ?g) \<le> 800000"
    by (simp add: calculateCGT_def calculateIndividualCGT_def calculateTotalCosts_def
        orZero_def Let_def)
  from exempt_at_or_below_threshold [of ?s "[]" True ?g] h1 h2 show ?thesis by simp
qed

text \<open>
  C5. In \<open>calculatePIT\<close> the total counted for the pension category is never to exceed
  8% of \<open>grossIncome\<close>, and the totals for rent relief and job loss never their
  ceilings. The loop of \<open>calculateDeductions\<close> caps each deduction on its own and adds
  every capped amount to the total. With a salary of 10,000,000 and two pension
  deductions of 800,000, each is within 8% of the gross income (800,000), the pension
  category counts for 1,600,000, and \<open>totalDeductions\<close> is 1,600,000.
\<close>

theorem two_pension_deductions_exceed_cap:
  "PITResult.grossIncome (calculatePIT
      [\<lparr>IncomeSource.type = ''salary'', IncomeSource.amount = 10000000\<rparr>]
      [\<lparr>Deduction.type = ''pension'', Deduction.amount = 800000\<rparr>,
       \<lparr>Deduction.type = ''pension'', Deduction.amount = 800000\<rparr>] True) = 10000000
   \<and> PITResult.totalDeductions (calculatePIT
      [\<lparr>IncomeSource.type = ''salary'', IncomeSource.amount = 10000000\<rparr>]
      [\<lparr>Deduction.type = ''pension'', Deduction.amount = 800000\<rparr>,
       \<lparr>Deduction.type = ''pension'', Deduction.amount = 800000\<rparr>] True) = 1600000
   \<and> categoryTotal ''pension'' (applied (calculateDeductions
      [\<lparr>Deduction.type = ''pension'', Deduction.amount = 800000\<rparr>,
       \<lparr>Deduction.type = ''pension'', Deduction.amount = 800000\<rparr>] 10000000)) = 1600000
   \<and> \<not> (1600000::real) \<le> 10000000 * 0.08"
  by (simp add: calculatePIT_def calculateGrossIncome_def calculateDeductions_def
      deductionStep_def applyLimits_def categoryTotal_def Let_def)

text \<open>
  C6. With a turnover of at most 100,000,000, \<open>calculateCIT\<close> returns \<open>citAmount\<close>,
  \<open>developmentLevy\<close>, \<open>minimumTaxTopUp\<close>, \<open>cfcTax\<close> and \<open>totalTaxPayable\<close> all 0, whatever
  the profits and the other inputs; and for a company whose \<open>companyTurnover\<close> is
  defined and at most 100,000,000, \<open>calculateCGT\<close> returns \<open>cgtAmount = 0\<close>, whatever
  the gain.
\<close>

theorem small_company_pays_nothing:
  "(CITInput.turnover i \<le> 100000000 \<longrightarrow>
      citAmount (calculateCIT i) = 0 \<and> developmentLevy (calculateCIT i) = 0
      \<and> minimumTaxTopUp (calculateCIT i) = 0 \<and> cfcTax (calculateCIT i) = 0
      \<and> totalTaxPayable (calculateCIT i) = 0)
   \<and> (CGTInput.taxpayerType g = Company \<and> companyTurnover g = Some t \<and> t \<le> 100000000 \<longrightarrow>
      cgtAmount (calculateCGT g) = 0)"
  by (simp add: calculateCIT_def determineCompanySize_def SMALL_COMPANY_TURNOVER_LIMIT_def
      calculateSmallCompanyCIT_def calculateCGT_def calculateCompanyCGT_def Let_def)

text \<open>
  A multinational with a turnover of exactly 100,000,000, profits of 90,000,000 and
  undistributed foreign profits, and a company of the same turnover with a gain of
  1,500,000.
\<close>

theorem small_company_pays_nothing_witness:
  "totalTaxPayable (calculateCIT
      \<lparr>CITInput.turnover = 100000000, CITInput.assessableProfits = 90000000,
       companyType = Multinational, isMultinationalSubject = True,
       foreignProfits = Some 5000000, distributedForeignProfits = Some 1000000\<rparr>) = 0
   \<and> cfcTax (calculateCIT
      \<lparr>CITInput.turnover = 100000000, CITInput.assessableProfits = 90000000,
       companyType = Multinational, isMultinationalSubject = True,
       foreignProfits = Some 5000000, distributedForeignProfits = Some 1000000\<rparr>) = 0
   \<and> cgtAmount (calculateCGT
      \<lparr>CGTInput.taxpayerType = Company, CGTInput.saleProceeds = 2000000,
       acquisitionCost = 500000, improvementCosts = None, transferCosts = None,
       isOffshoreTransfer = None, companyTurnover = Some 100000000\<rparr>) = 0"
  using small_company_pays_nothing
    [of "\<lparr>CITInput.turnover = 100000000, CITInput.assessableProfits = 90000000,
          companyType = Multinational, isMultinationalSubject = True,
          foreignProfits = Some 5000000, distributedForeignProfits = Some 1000000\<rparr>"
        "\<lparr>CGTInput.taxpayerType = Company, CGTInput.saleProceeds = 2000000,
          acquisitionCost = 500000, improvementCosts = None, transferCosts = None,
          isOffshoreTransfer = None, companyTurnover = Some 100000000\<rparr>"
        100000000]
  by simp

text \<open>
  C7. In every result of \<open>calculateCIT\<close>, \<open>totalTaxPayable\<close> is
  \<open>citAmount + developmentLevy + minimumTaxTopUp + cfcTax\<close>, and when \<open>companySize\<close> is
  small the four components are 0.
\<close>

theorem cit_total_is_sum_of_components:
  "totalTaxPayable (calculateCIT i) =
     citAmount (calculateCIT i) + developmentLevy (calculateCIT i)
     + minimumTaxTopUp (calculateCIT i) + cfcTax (calculateCIT i)
   \<and> (companySize (calculateCIT i) = Small \<longrightarrow>
        citAmount (calculateCIT i) = 0 \<and> developmentLevy (calculateCIT i) = 0
        \<and> minimumTaxTopUp (calculateCIT i) = 0 \<and> cfcTax (calculateCIT i) = 0)"
  by (simp add: calculateCIT_def calculateSmallCompanyCIT_def calculateOtherCompanyCIT_def
      Let_def)

theorem cit_total_is_sum_of_components_witness:
  "citAmount (calculateCIT
      \<lparr>CITInput.turnover = 50000000, CITInput.assessableProfits = 10000000,
       companyType = Domestic, isMultinationalSubject = False,
       foreignProfits = None, distributedForeignProfits = None\<rparr>) = 0
   \<and> developmentLevy (calculateCIT
      \<lparr>CITInput.turnover = 50000000, CITInput.assessableProfits = 10000000,
       companyType = Domestic, isMultinationalSubject = False,
       foreignProfits = None, distributedForeignProfits = None\<rparr>) = 0"
proof -
  let ?i = "\<lparr>CITInput.turnover = 50000000, CITInput.assessableProfits = 10000000,
       companyType = Domestic, isMultinationalSubject = False,
       foreignProfits = None, distributedForeignProfits = None\<rparr>"
  have h: "companySize (calculateCIT ?i) = Small"
    by (simp add: calculateCIT_def determineCompanySize_def SMALL_COMPANY_TURNOVER_LIMIT_def
        calculateSmallCompanyCIT_def)
  from cit_total_is_sum_of_components [of ?i] h show ?thesis by simp
qed




text \<open>
  C9. The \<open>isResident\<close> flag does not interfere: \<open>calculatePIT\<close> returns the same record
  for a resident and for a non-resident with the same incomes and deductions.
\<close>

theorem isResident_noninterference:
  "calculatePIT incomes deductions True = calculatePIT incomes deductions False"
  by (simp add: calculatePIT_def Let_def)

text \<open>
  C10. With a turnover above 100,000,000 and assessable profits that are not negative,
  \<open>minimumTaxTopUp\<close> is 0: when the profits are positive the tax before the top-up is
  34% of them (\<open>CIT_RATE + DEVELOPMENT_LEVY_RATE\<close>), which is not below the minimum of
  15%, so the branch that computes a top-up is never taken.
\<close>

theorem minimum_tax_top_up_is_zero:
  assumes "CITInput.turnover i > 100000000" "CITInput.assessableProfits i \<ge> 0"
  shows "minimumTaxTopUp (calculateCIT i) = 0
       \<and> (CITInput.assessableProfits i > 0 \<longrightarrow>
            totalTaxBeforeTopUp (calculateCIT i) / CITInput.assessableProfits i * 100
              = CIT_RATE + DEVELOPMENT_LEVY_RATE
            \<and> CIT_RATE + DEVELOPMENT_LEVY_RATE = 34
            \<and> MINIMUM_EFFECTIVE_TAX_RATE \<le> CIT_RATE + DEVELOPMENT_LEVY_RATE)"
  using assms
  by (simp add: calculateCIT_def determineCompanySize_def SMALL_COMPANY_TURNOVER_LIMIT_def
      calculateOtherCompanyCIT_def calculateMinimumTaxTopUp_def Let_def CIT_RATE_def
      DEVELOPMENT_LEVY_RATE_def MINIMUM_EFFECTIVE_TAX_RATE_def)

text \<open>
  A multinational subject to the minimum rate, with a turnover of 200,000,000 and
  profits of 10,000,000: the tax before the top-up is 3,400,000.
\<close>

theorem minimum_tax_top_up_is_zero_witness:
  "minimumTaxTopUp (calculateCIT
      \<lparr>CITInput.turnover = 200000000, CITInput.assessableProfits = 10000000,
       companyType = Multinational, isMultinationalSubject = True,
       foreignProfits = None, distributedForeignProfits = None\<rparr>) = 0
   \<and> totalTaxBeforeTopUp (calculateCIT
      \<lparr>CITInput.turnover = 200000000, CITInput.assessableProfits = 10000000,
       companyType = Multinational, isMultinationalSubject = True,
       foreignProfits = None, distributedForeignProfits = None\<rparr>) = 3400000"
  using minimum_tax_top_up_is_zero
    [of "\<lparr>CITInput.turnover = 200000000, CITInput.assessableProfits = 10000000,
          companyType = Multinational, isMultinationalSubject = True,
          foreignProfits = None, distributedForeignProfits = None\<rparr>"]
  by (simp add: CIT_RATE_def DEVELOPMENT_LEVY_RATE_def)

end
